theory Spec2Isabelle
  imports Main "HOL-Library.Word"
begin

section \<open>Protocol values and messages\<close>

text \<open>
  The three controllers (\<^verbatim>\<open>controladorTeste2.py\<close>, \<^verbatim>\<open>controladorTeste3.py\<close>,
  \<^verbatim>\<open>controladorTeste4_5.py\<close>) are Ryu applications speaking OpenFlow 1.3. Python
  integers are modelled as \<open>int\<close>, MAC and IP addresses are the text strings Ryu hands to
  the application, raw frame data is a list of bytes.
\<close>

type_synonym dpid = int
type_synonym port_no = int
type_synonym mac = string
type_synonym ip_addr = string
type_synonym bytes = "8 word list"

text \<open>
  The constants the controllers read from \<^verbatim>\<open>ofproto_v1_3\<close> and \<^verbatim>\<open>ether_types\<close>, with
  the values the OpenFlow 1.3 specification and the IEEE ether-type registry give them.
\<close>

definition OFPP_FLOOD :: port_no where
  "OFPP_FLOOD = 0xfffffffb"

definition OFPP_CONTROLLER :: port_no where
  "OFPP_CONTROLLER = 0xfffffffd"

definition OFP_NO_BUFFER :: int where
  "OFP_NO_BUFFER = 0xffffffff"

definition OFPCML_NO_BUFFER :: int where
  "OFPCML_NO_BUFFER = 0xffff"

definition OFPCML_MAX :: int where
  "OFPCML_MAX = 0xffe5"

definition OFPIT_APPLY_ACTIONS :: int where
  "OFPIT_APPLY_ACTIONS = 4"

definition ETH_TYPE_IP :: int where
  "ETH_TYPE_IP = 0x0800"

definition ETH_TYPE_LLDP :: int where
  "ETH_TYPE_LLDP = 0x88cc"

text \<open>
  \<^verbatim>\<open>parser.OFPActionOutput(port, max_len)\<close> and \<^verbatim>\<open>parser.OFPActionSetQueue(queue_id)\<close>.
  When the controllers write \<^verbatim>\<open>OFPActionOutput(out_port)\<close> the second argument is the
  constructor's default, \<open>OFPCML_MAX\<close>.
\<close>

datatype ofp_action =
    OFPActionOutput port_no int
  | OFPActionSetQueue int

text \<open>
  \<^verbatim>\<open>parser.OFPMatch(...)\<close>: every field is optional; the controllers only ever set these
  five.
\<close>

record ofp_match =
  m_in_port :: "port_no option"
  m_eth_dst :: "mac option"
  m_eth_type :: "int option"
  m_ipv4_src :: "ip_addr option"
  m_ipv4_dst :: "ip_addr option"

definition OFPMatch :: ofp_match where
  "OFPMatch = \<lparr>m_in_port = None, m_eth_dst = None, m_eth_type = None,
                m_ipv4_src = None, m_ipv4_dst = None\<rparr>"

datatype ofp_instruction =
    OFPInstructionActions int "ofp_action list"

record flow_mod =
  fm_datapath :: dpid
  fm_buffer_id :: int
  fm_priority :: int
  fm_match :: ofp_match
  fm_instructions :: "ofp_instruction list"

record packet_out =
  po_datapath :: dpid
  po_buffer_id :: int
  po_in_port :: port_no
  po_actions :: "ofp_action list"
  po_data :: "bytes option"

text \<open>What \<^verbatim>\<open>datapath.send_msg\<close> is handed: a flow modification or a packet-out.\<close>

datatype ofp_msg =
    OFPFlowMod flow_mod
  | OFPPacketOut packet_out

subsection \<open>Decoded frames and the packet-in message\<close>

record ethernet =
  eth_dst :: mac
  eth_src :: mac
  ethertype :: int

record ipv4 =
  ip_src :: ip_addr
  ip_dst :: ip_addr

text \<open>
  \<^verbatim>\<open>pkt = packet.Packet(msg.data)\<close> decodes the frame with Ryu's packet library;
  \<^verbatim>\<open>pkt.get_protocol(cls)\<close> returns the decoded header of that class, or \<^verbatim>\<open>None\<close> when
  the frame holds none (the bytes did not decode as such a header). The record keeps the two
  answers the controllers ask for.
\<close>

record packet =
  get_protocol_ethernet :: "ethernet option"
  get_protocol_ipv4 :: "ipv4 option"

text \<open>
  The \<^verbatim>\<open>EventOFPPacketIn\<close> message: \<^verbatim>\<open>msg.datapath.id\<close>, \<^verbatim>\<open>msg.buffer_id\<close>,
  \<^verbatim>\<open>msg.match['in_port']\<close>, \<^verbatim>\<open>msg.data\<close>, and the decoding of \<^verbatim>\<open>msg.data\<close>.
\<close>

record packet_in =
  pi_datapath_id :: dpid
  pi_buffer_id :: int
  pi_in_port :: port_no
  pi_data :: bytes
  pi_pkt :: packet

section \<open>Controller state and outcomes\<close>

text \<open>
  \<^verbatim>\<open>self.mac_to_port\<close>: a dictionary from switch id to a dictionary from MAC address to
  port. \<^verbatim>\<open>__init__\<close> sets it to the empty dictionary.
\<close>

type_synonym mac_table = "dpid \<rightharpoonup> (mac \<rightharpoonup> port_no)"

definition init :: mac_table where
  "init = Map.empty"

text \<open>
  An attribute access on \<^verbatim>\<open>None\<close> raises \<^verbatim>\<open>AttributeError\<close>; no handler catches it, so
  it leaves the handler.
\<close>

datatype py_error = AttributeError

text \<open>
  What one handler call does: the exception that left it (if any), the dictionary as the
  call left it, and the messages passed to \<^verbatim>\<open>datapath.send_msg\<close>, in order. Log lines
  are not modelled.
\<close>

record outcome =
  raised :: "py_error option"
  mac_to_port :: mac_table
  sent :: "ofp_msg list"

section \<open>The handlers\<close>

text \<open>
  \<^verbatim>\<open>add_flow(self, datapath, priority, match, actions, buffer_id=None)\<close>, the same text
  in the three controllers. \<^verbatim>\<open>buffer_id or ofproto.OFP_NO_BUFFER\<close> takes the right operand
  when the left one is falsy, which for an optional integer is \<^verbatim>\<open>None\<close> or \<open>0\<close>.
\<close>

definition add_flow ::
  "dpid \<Rightarrow> int \<Rightarrow> ofp_match \<Rightarrow> ofp_action list \<Rightarrow> int option \<Rightarrow> ofp_msg list" where
  "add_flow datapath priority match actions buffer_id =
     (let inst = [OFPInstructionActions OFPIT_APPLY_ACTIONS actions];
          flow = \<lparr>fm_datapath = datapath,
                  fm_buffer_id = (case buffer_id of
                                   None \<Rightarrow> OFP_NO_BUFFER
                                 | Some b \<Rightarrow> if b = 0 then OFP_NO_BUFFER else b),
                 fm_priority = priority,
                 fm_match = match,
                 fm_instructions = inst\<rparr>
      in [OFPFlowMod flow])"

text \<open>
  \<^verbatim>\<open>switch_features_handler\<close>, the same in the three controllers: the argument is
  \<^verbatim>\<open>ev.msg.datapath.id\<close>; \<^verbatim>\<open>self.mac_to_port\<close> is not touched.
\<close>

definition switch_features_handler :: "mac_table \<Rightarrow> dpid \<Rightarrow> outcome" where
  "switch_features_handler tbl datapath =
     (let match = OFPMatch;
          actions = [OFPActionOutput OFPP_CONTROLLER OFPCML_NO_BUFFER]
      in \<lparr>raised = None, mac_to_port = tbl,
          sent = add_flow datapath 0 match actions None\<rparr>)"

text \<open>
  The learning step of \<^verbatim>\<open>_packet_in_handler\<close>:
  \<^verbatim>\<open>self.mac_to_port.setdefault(dpid, {})\<close> leaves at \<open>dpid\<close> the dictionary already there,
  or a new empty one; \<^verbatim>\<open>self.mac_to_port[dpid][src] = in_port\<close> then writes into it.
\<close>

definition setdefault_ports :: "mac_table \<Rightarrow> dpid \<Rightarrow> (mac \<rightharpoonup> port_no)" where
  "setdefault_ports tbl dpid = (case tbl dpid of None \<Rightarrow> Map.empty | Some ports \<Rightarrow> ports)"

definition learn :: "mac_table \<Rightarrow> dpid \<Rightarrow> mac \<Rightarrow> port_no \<Rightarrow> mac_table" where
  "learn tbl dpid src in_port = tbl(dpid \<mapsto> (setdefault_ports tbl dpid)(src \<mapsto> in_port))"

text \<open>
  The local variable \<^verbatim>\<open>out_port\<close>: the port recorded for the destination in the
  dictionary of this switch after the learning step, \<^verbatim>\<open>ofproto.OFPP_FLOOD\<close> when there is
  none (\<^verbatim>\<open>if dst in ... else ...\<close> in \<^verbatim>\<open>controladorTeste2.py\<close>,
  \<^verbatim>\<open>.get(dst, ofproto.OFPP_FLOOD)\<close> in the other two).
\<close>

definition out_port_for :: "mac_table \<Rightarrow> packet_in \<Rightarrow> ethernet \<Rightarrow> port_no" where
  "out_port_for tbl msg eth =
     (case ((setdefault_ports tbl (pi_datapath_id msg))(eth_src eth \<mapsto> pi_in_port msg))
             (eth_dst eth) of
        None \<Rightarrow> OFPP_FLOOD
      | Some p \<Rightarrow> p)"

text \<open>
  The end of \<^verbatim>\<open>_packet_in_handler\<close>: the packet-out carries the frame's bytes only when
  the switch did not buffer the frame.
\<close>

definition send_packet_out :: "packet_in \<Rightarrow> ofp_action list \<Rightarrow> ofp_msg list" where
  "send_packet_out msg actions =
     (let data = (if pi_buffer_id msg = OFP_NO_BUFFER then Some (pi_data msg) else None)
      in [OFPPacketOut \<lparr>po_datapath = pi_datapath_id msg,
                        po_buffer_id = pi_buffer_id msg,
                        po_in_port = pi_in_port msg,
                        po_actions = actions,
                        po_data = data\<rparr>])"

subsection \<open>controladorTeste2.py: two queues, by source and destination\<close>

text \<open>The tests of lines 95 and 101 on the decoded IPv4 header.\<close>

definition is_high_Teste2 :: "ipv4 \<Rightarrow> bool" where
  "is_high_Teste2 ip \<longleftrightarrow> ip_src ip = ''10.0.0.1'' \<and> ip_dst ip = ''10.0.0.4''"

definition is_low_Teste2 :: "ipv4 \<Rightarrow> bool" where
  "is_low_Teste2 ip \<longleftrightarrow> ip_src ip = ''10.0.0.3'' \<and> ip_dst ip = ''10.0.0.4''"

text \<open>
  Lines 88 to 104: the match and the actions after the special treatment of IPv4 traffic.
  \<^verbatim>\<open>ip\<close> is read only on switch 1 with output port 4; there \<^verbatim>\<open>ip.src\<close> raises when
  the frame has no IPv4 header.
\<close>

definition qos_Teste2 ::
  "dpid \<Rightarrow> port_no \<Rightarrow> ethernet \<Rightarrow> packet \<Rightarrow> ofp_match \<Rightarrow> ofp_action list
     \<Rightarrow> py_error + (ofp_match \<times> ofp_action list)" where
  "qos_Teste2 dpid out_port eth pkt match actions =
     (if ethertype eth = ETH_TYPE_IP then
        (if dpid = 1 \<and> out_port = 4 then
           (case get_protocol_ipv4 pkt of
              None \<Rightarrow> Inl AttributeError
            | Some ip \<Rightarrow>
                if is_high_Teste2 ip then
                  Inr (OFPMatch\<lparr>m_eth_type := Some ETH_TYPE_IP,
                                 m_ipv4_src := Some (ip_src ip),
                                 m_ipv4_dst := Some (ip_dst ip)\<rparr>,
                       [OFPActionSetQueue 1, OFPActionOutput out_port OFPCML_MAX])
                else if is_low_Teste2 ip then
                  Inr (OFPMatch\<lparr>m_eth_type := Some ETH_TYPE_IP,
                                 m_ipv4_src := Some (ip_src ip),
                                 m_ipv4_dst := Some (ip_dst ip)\<rparr>,
                       [OFPActionSetQueue 2, OFPActionOutput out_port OFPCML_MAX])
                else Inr (match, actions))
         else Inr (match, actions))
      else Inr (match, actions))"

definition packet_in_handler_Teste2 :: "mac_table \<Rightarrow> packet_in \<Rightarrow> outcome" where
  "packet_in_handler_Teste2 tbl msg =
     (let datapath = pi_datapath_id msg;
          in_port = pi_in_port msg;
          pkt = pi_pkt msg
      in case get_protocol_ethernet pkt of
           None \<Rightarrow> \<lparr>raised = Some AttributeError, mac_to_port = tbl, sent = []\<rparr>
         | Some eth \<Rightarrow>
             if ethertype eth = ETH_TYPE_LLDP then
               \<lparr>raised = None, mac_to_port = tbl, sent = []\<rparr>
             else
               (let dst = eth_dst eth;
                    src = eth_src eth;
                    dpid = datapath;
                    tbl' = learn tbl dpid src in_port;
                    out_port = out_port_for tbl msg eth;
                    actions = [OFPActionOutput out_port OFPCML_MAX]
                in if out_port \<noteq> OFPP_FLOOD then
                     (let match = OFPMatch\<lparr>m_in_port := Some in_port, m_eth_dst := Some dst\<rparr>
                      in case qos_Teste2 dpid out_port eth pkt match actions of
                           Inl e \<Rightarrow> \<lparr>raised = Some e, mac_to_port = tbl', sent = []\<rparr>
                         | Inr (match', actions') \<Rightarrow>
                             \<lparr>raised = None, mac_to_port = tbl',
                              sent = add_flow datapath 1 match' actions' (Some (pi_buffer_id msg))
                                     @ send_packet_out msg actions'\<rparr>)
                   else \<lparr>raised = None, mac_to_port = tbl',
                         sent = send_packet_out msg actions\<rparr>))"

subsection \<open>controladorTeste3.py: one host high, two hosts low, by source\<close>

text \<open>The tests of lines 90 and 107 on the decoded IPv4 header.\<close>

definition is_high_Teste3 :: "ipv4 \<Rightarrow> bool" where
  "is_high_Teste3 ip \<longleftrightarrow> ip_src ip = ''10.0.0.2''"

definition is_low_Teste3 :: "ipv4 \<Rightarrow> bool" where
  "is_low_Teste3 ip \<longleftrightarrow> ip_src ip = ''10.0.0.1'' \<or> ip_src ip = ''10.0.0.3''"

text \<open>
  Lines 85 to 122: one test for switch 1, output port 4 and the IPv4 ether-type; inside it
  \<^verbatim>\<open>ip.src\<close> raises when the frame has no IPv4 header.
\<close>

definition qos_Teste3 ::
  "dpid \<Rightarrow> port_no \<Rightarrow> ethernet \<Rightarrow> packet \<Rightarrow> ofp_match \<Rightarrow> ofp_action list
     \<Rightarrow> py_error + (ofp_match \<times> ofp_action list)" where
  "qos_Teste3 dpid out_port eth pkt match actions =
     (if dpid = 1 \<and> out_port = 4 \<and> ethertype eth = ETH_TYPE_IP then
        (case get_protocol_ipv4 pkt of
           None \<Rightarrow> Inl AttributeError
         | Some ip \<Rightarrow>
             if is_high_Teste3 ip then
               Inr (OFPMatch\<lparr>m_eth_type := Some ETH_TYPE_IP,
                              m_ipv4_src := Some (ip_src ip),
                              m_ipv4_dst := Some (ip_dst ip)\<rparr>,
                    [OFPActionSetQueue 1, OFPActionOutput out_port OFPCML_MAX])
             else if is_low_Teste3 ip then
               Inr (OFPMatch\<lparr>m_eth_type := Some ETH_TYPE_IP,
                              m_ipv4_src := Some (ip_src ip),
                              m_ipv4_dst := Some (ip_dst ip)\<rparr>,
                    [OFPActionSetQueue 2, OFPActionOutput out_port OFPCML_MAX])
             else Inr (match, actions))
      else Inr (match, actions))"

definition packet_in_handler_Teste3 :: "mac_table \<Rightarrow> packet_in \<Rightarrow> outcome" where
  "packet_in_handler_Teste3 tbl msg =
     (let datapath = pi_datapath_id msg;
          in_port = pi_in_port msg;
          pkt = pi_pkt msg
      in case get_protocol_ethernet pkt of
           None \<Rightarrow> \<lparr>raised = Some AttributeError, mac_to_port = tbl, sent = []\<rparr>
         | Some eth \<Rightarrow>
             if ethertype eth = ETH_TYPE_LLDP then
               \<lparr>raised = None, mac_to_port = tbl, sent = []\<rparr>
             else
               (let dst = eth_dst eth;
                    src = eth_src eth;
                    dpid = datapath;
                    tbl' = learn tbl dpid src in_port;
                    out_port = out_port_for tbl msg eth;
                    actions = [OFPActionOutput out_port OFPCML_MAX]
                in if out_port \<noteq> OFPP_FLOOD then
                     (let match = OFPMatch\<lparr>m_in_port := Some in_port, m_eth_dst := Some dst\<rparr>
                      in case qos_Teste3 dpid out_port eth pkt match actions of
                           Inl e \<Rightarrow> \<lparr>raised = Some e, mac_to_port = tbl', sent = []\<rparr>
                         | Inr (match', actions') \<Rightarrow>
                             \<lparr>raised = None, mac_to_port = tbl',
                              sent = add_flow datapath 1 match' actions' (Some (pi_buffer_id msg))
                                     @ send_packet_out msg actions'\<rparr>)
                   else \<lparr>raised = None, mac_to_port = tbl',
                         sent = send_packet_out msg actions\<rparr>))"

subsection \<open>controladorTeste4_5.py: learning and forwarding only\<close>

definition packet_in_handler_Teste4_5 :: "mac_table \<Rightarrow> packet_in \<Rightarrow> outcome" where
  "packet_in_handler_Teste4_5 tbl msg =
     (let datapath = pi_datapath_id msg;
          in_port = pi_in_port msg;
          pkt = pi_pkt msg
      in case get_protocol_ethernet pkt of
           None \<Rightarrow> \<lparr>raised = Some AttributeError, mac_to_port = tbl, sent = []\<rparr>
         | Some eth \<Rightarrow>
             if ethertype eth = ETH_TYPE_LLDP then
               \<lparr>raised = None, mac_to_port = tbl, sent = []\<rparr>
             else
               (let dst = eth_dst eth;
                    src = eth_src eth;
                    dpid = datapath;
                    tbl' = learn tbl dpid src in_port;
                    out_port = out_port_for tbl msg eth;
                    actions = [OFPActionOutput out_port OFPCML_MAX]
                in if out_port \<noteq> OFPP_FLOOD then
                     (let match = OFPMatch\<lparr>m_in_port := Some in_port, m_eth_dst := Some dst\<rparr>
                      in \<lparr>raised = None, mac_to_port = tbl',
                          sent = add_flow datapath 1 match actions (Some (pi_buffer_id msg))
                                 @ send_packet_out msg actions\<rparr>)
                   else \<lparr>raised = None, mac_to_port = tbl',
                         sent = send_packet_out msg actions\<rparr>))"

subsection \<open>The three controllers, and runs of events\<close>

text \<open>Which of the three programs is running.\<close>

datatype variant = Teste2 | Teste3 | Teste4_5

fun packet_in_handler :: "variant \<Rightarrow> mac_table \<Rightarrow> packet_in \<Rightarrow> outcome" where
  "packet_in_handler Teste2 = packet_in_handler_Teste2"
| "packet_in_handler Teste3 = packet_in_handler_Teste3"
| "packet_in_handler Teste4_5 = packet_in_handler_Teste4_5"

text \<open>
  The two events a controller subscribes to with \<^verbatim>\<open>set_ev_cls\<close>, and the dispatch to its
  handlers.
\<close>

datatype event =
    EventOFPSwitchFeatures dpid
  | EventOFPPacketIn packet_in

fun handle :: "variant \<Rightarrow> mac_table \<Rightarrow> event \<Rightarrow> outcome" where
  "handle v tbl (EventOFPSwitchFeatures datapath) = switch_features_handler tbl datapath"
| "handle v tbl (EventOFPPacketIn msg) = packet_in_handler v tbl msg"

text \<open>
  The dictionary after a sequence of events, each handled on the dictionary the previous one
  left (also when that one raised: what it had written stays written).
\<close>

fun run :: "variant \<Rightarrow> mac_table \<Rightarrow> event list \<Rightarrow> mac_table" where
  "run v tbl [] = tbl"
| "run v tbl (ev # evs) = run v (mac_to_port (handle v tbl ev)) evs"

subsection \<open>Sample frames and tables\<close>

text \<open>
  Concrete events on which the handlers are evaluated below: a decoded frame with the given
  addresses, ether-type and IPv4 header; a packet-in message carrying it; and the table of a
  controller that has seen host 4 behind port 4 of switch 1, as in the test topologies. The
  two bytes of \<open>pi_data\<close> are placeholders: the handlers only pass \<^verbatim>\<open>msg.data\<close> on.
\<close>

definition sample_frame :: "mac \<Rightarrow> mac \<Rightarrow> int \<Rightarrow> ipv4 option \<Rightarrow> packet" where
  "sample_frame src dst ety ip =
     \<lparr>get_protocol_ethernet = Some \<lparr>eth_dst = dst, eth_src = src, ethertype = ety\<rparr>,
      get_protocol_ipv4 = ip\<rparr>"

definition sample_packet_in :: "dpid \<Rightarrow> port_no \<Rightarrow> int \<Rightarrow> packet \<Rightarrow> packet_in" where
  "sample_packet_in dpid in_port buffer_id pkt =
     \<lparr>pi_datapath_id = dpid, pi_buffer_id = buffer_id, pi_in_port = in_port,
      pi_data = [0x00, 0x01], pi_pkt = pkt\<rparr>"

definition sample_table :: mac_table where
  "sample_table = [1 \<mapsto> [''00:00:00:00:00:04'' \<mapsto> 4]]"

section \<open>Facts shared by the proofs\<close>

lemmas handler_defs = packet_in_handler_Teste2_def packet_in_handler_Teste3_def
  packet_in_handler_Teste4_5_def

lemmas sample_defs = sample_frame_def sample_packet_in_def sample_table_def

lemma ip_not_lldp [simp]: "ETH_TYPE_IP \<noteq> ETH_TYPE_LLDP" "ETH_TYPE_LLDP \<noteq> ETH_TYPE_IP"
  by (simp_all add: ETH_TYPE_IP_def ETH_TYPE_LLDP_def)

lemma no_buffer_not_zero [simp]: "OFP_NO_BUFFER \<noteq> 0" "0 \<noteq> OFP_NO_BUFFER"
  by (simp_all add: OFP_NO_BUFFER_def)

lemma port4_not_flood [simp]: "OFPP_FLOOD \<noteq> 4" "4 \<noteq> OFPP_FLOOD"
  by (simp_all add: OFPP_FLOOD_def)

text \<open>
  \<open>out_port_for\<close> reads the dictionary that \<open>learn\<close> has just written for the switch.
\<close>

lemma learn_same_switch:
  "learn tbl dpid src in_port dpid = Some ((setdefault_ports tbl dpid)(src \<mapsto> in_port))"
  by (simp add: learn_def)

lemma out_port_for_learn:
  "out_port_for tbl msg eth
     = (case learn tbl (pi_datapath_id msg) (eth_src eth) (pi_in_port msg) (pi_datapath_id msg) of
          None \<Rightarrow> OFPP_FLOOD
        | Some ports \<Rightarrow> (case ports (eth_dst eth) of None \<Rightarrow> OFPP_FLOOD | Some p \<Rightarrow> p))"
  by (simp add: out_port_for_def learn_same_switch)

text \<open>
  On a fresh switch, one with no dictionary yet or with an empty one, no address has a port.
\<close>

lemma fresh_switch_unrecorded:
  "tbl dpid = None \<or> tbl dpid = Some Map.empty \<Longrightarrow> setdefault_ports tbl dpid a = None"
  by (auto simp: setdefault_ports_def)

lemma out_port_for_unrecorded:
  assumes "setdefault_ports tbl (pi_datapath_id msg) (eth_dst eth) = None"
      and "eth_dst eth \<noteq> eth_src eth"
  shows "out_port_for tbl msg eth = OFPP_FLOOD"
  using assms by (simp add: out_port_for_def)

lemma mac_to_port_packet_in:
  "mac_to_port (packet_in_handler v tbl msg)
     = (case get_protocol_ethernet (pi_pkt msg) of
          None \<Rightarrow> tbl
        | Some eth \<Rightarrow>
            if ethertype eth = ETH_TYPE_LLDP then tbl
            else learn tbl (pi_datapath_id msg) (eth_src eth) (pi_in_port msg))"
  by (cases v)
     (simp_all add: handler_defs Let_def split: option.splits sum.splits prod.splits)

lemma mac_to_port_switch_features:
  "mac_to_port (switch_features_handler tbl datapath) = tbl"
  by (simp add: switch_features_handler_def)

lemma learn_lookup:
  "learn tbl d a p d' = Some ports \<Longrightarrow> ports a' = Some p' \<Longrightarrow>
     (\<exists>ports0. tbl d' = Some ports0 \<and> ports0 a' = Some p') \<or> (d' = d \<and> a' = a \<and> p' = p)"
  by (auto simp: learn_def setdefault_ports_def split: if_splits option.splits)

lemma handle_entry_origin:
  assumes "mac_to_port (handle v tbl ev) d = Some ports" and "ports a = Some p"
  shows "(\<exists>ports0. tbl d = Some ports0 \<and> ports0 a = Some p)
       \<or> (\<exists>msg eth. ev = EventOFPPacketIn msg \<and> pi_datapath_id msg = d
              \<and> get_protocol_ethernet (pi_pkt msg) = Some eth
              \<and> ethertype eth \<noteq> ETH_TYPE_LLDP \<and> eth_src eth = a \<and> pi_in_port msg = p)"
proof (cases ev)
  case (EventOFPSwitchFeatures dp)
  with assms show ?thesis by (simp add: mac_to_port_switch_features)
next
  case (EventOFPPacketIn msg)
  show ?thesis
  proof (cases "get_protocol_ethernet (pi_pkt msg)")
    case None
    with assms EventOFPPacketIn show ?thesis by (simp add: mac_to_port_packet_in)
  next
    case (Some eth)
    show ?thesis
    proof (cases "ethertype eth = ETH_TYPE_LLDP")
      case True
      with assms EventOFPPacketIn Some show ?thesis by (simp add: mac_to_port_packet_in)
    next
      case False
      with assms EventOFPPacketIn Some
      have "learn tbl (pi_datapath_id msg) (eth_src eth) (pi_in_port msg) d = Some ports"
        by (simp add: mac_to_port_packet_in)
      from learn_lookup [OF this assms(2)] EventOFPPacketIn Some False
      show ?thesis by auto
    qed
  qed
qed

lemma run_entry_origin:
  "run v tbl evs d = Some ports \<Longrightarrow> ports a = Some p \<Longrightarrow>
     (\<exists>ports0. tbl d = Some ports0 \<and> ports0 a = Some p)
   \<or> (\<exists>msg eth. EventOFPPacketIn msg \<in> set evs \<and> pi_datapath_id msg = d
          \<and> get_protocol_ethernet (pi_pkt msg) = Some eth
          \<and> ethertype eth \<noteq> ETH_TYPE_LLDP \<and> eth_src eth = a \<and> pi_in_port msg = p)"
proof (induction evs arbitrary: tbl)
  case Nil
  then show ?case by simp
next
  case (Cons ev evs)
  from Cons.prems have "run v (mac_to_port (handle v tbl ev)) evs d = Some ports" by simp
  from Cons.IH [OF this Cons.prems(2)]
  show ?case
  proof
    assume "\<exists>ports0. mac_to_port (handle v tbl ev) d = Some ports0 \<and> ports0 a = Some p"
    then obtain ports0 where "mac_to_port (handle v tbl ev) d = Some ports0" "ports0 a = Some p"
      by blast
    from handle_entry_origin [OF this] show ?thesis by auto
  next
    assume "\<exists>msg eth. EventOFPPacketIn msg \<in> set evs \<and> pi_datapath_id msg = d
          \<and> get_protocol_ethernet (pi_pkt msg) = Some eth
          \<and> ethertype eth \<noteq> ETH_TYPE_LLDP \<and> eth_src eth = a \<and> pi_in_port msg = p"
    then show ?thesis by auto
  qed
qed

lemma learn_keeps_switches: "dom tbl \<subseteq> dom (learn tbl d a p)"
  by (auto simp: learn_def)

lemma learn_keeps_addresses:
  "dom (setdefault_ports tbl d') \<subseteq> dom (setdefault_ports (learn tbl d a p) d')"
  by (auto simp: learn_def setdefault_ports_def split: option.splits)

lemma handle_keeps_keys:
  "dom tbl \<subseteq> dom (mac_to_port (handle v tbl ev))
   \<and> dom (setdefault_ports tbl d) \<subseteq> dom (setdefault_ports (mac_to_port (handle v tbl ev)) d)"
proof (cases ev)
  case (EventOFPSwitchFeatures dp)
  then show ?thesis by (simp add: mac_to_port_switch_features)
next
  case (EventOFPPacketIn msg)
  then show ?thesis
    using learn_keeps_switches learn_keeps_addresses
    by (simp add: mac_to_port_packet_in split: option.splits)
qed

section \<open>Queue classification\<close>

text \<open>
  C1. Two-tier controller (\<^verbatim>\<open>controladorTeste2.py\<close>), packet-in with a decoded IPv4
  frame whose destination resolves to a port other than flood (a Deliver decision).
  On switch 1 with output port 4, \<open>ip.src = 10.0.0.1\<close> and \<open>ip.dst = 10.0.0.4\<close> give a
  rule and a packet-out whose actions set queue 1 (HIGH) before the output; with
  \<open>ip.src = 10.0.0.3\<close> and \<open>ip.dst = 10.0.0.4\<close> they set queue 2 (LOW); every other
  combination of switch, output port, source and destination gives the rule on
  (in_port, eth_dst) and a packet-out whose only action is the output: no queue is set.
\<close>

theorem two_tier_classification:
  assumes "get_protocol_ethernet (pi_pkt msg) = Some eth"
      and "ethertype eth = ETH_TYPE_IP"
      and "get_protocol_ipv4 (pi_pkt msg) = Some ip"
      and "out_port_for tbl msg eth = out_port"
      and "out_port \<noteq> OFPP_FLOOD"
  shows "(pi_datapath_id msg = 1 \<and> out_port = 4
            \<and> ip_src ip = ''10.0.0.1'' \<and> ip_dst ip = ''10.0.0.4'' \<longrightarrow>
          sent (packet_in_handler_Teste2 tbl msg)
            = add_flow 1 1
                \<lparr>m_in_port = None, m_eth_dst = None, m_eth_type = Some ETH_TYPE_IP,
                 m_ipv4_src = Some ''10.0.0.1'', m_ipv4_dst = Some ''10.0.0.4''\<rparr>
                [OFPActionSetQueue 1, OFPActionOutput 4 OFPCML_MAX] (Some (pi_buffer_id msg))
              @ send_packet_out msg [OFPActionSetQueue 1, OFPActionOutput 4 OFPCML_MAX])
       \<and> (pi_datapath_id msg = 1 \<and> out_port = 4
            \<and> ip_src ip = ''10.0.0.3'' \<and> ip_dst ip = ''10.0.0.4'' \<longrightarrow>
          sent (packet_in_handler_Teste2 tbl msg)
            = add_flow 1 1
                \<lparr>m_in_port = None, m_eth_dst = None, m_eth_type = Some ETH_TYPE_IP,
                 m_ipv4_src = Some ''10.0.0.3'', m_ipv4_dst = Some ''10.0.0.4''\<rparr>
                [OFPActionSetQueue 2, OFPActionOutput 4 OFPCML_MAX] (Some (pi_buffer_id msg))
              @ send_packet_out msg [OFPActionSetQueue 2, OFPActionOutput 4 OFPCML_MAX])
       \<and> (\<not> (pi_datapath_id msg = 1 \<and> out_port = 4 \<and> ip_dst ip = ''10.0.0.4''
               \<and> (ip_src ip = ''10.0.0.1'' \<or> ip_src ip = ''10.0.0.3'')) \<longrightarrow>
          sent (packet_in_handler_Teste2 tbl msg)
            = add_flow (pi_datapath_id msg) 1
                \<lparr>m_in_port = Some (pi_in_port msg), m_eth_dst = Some (eth_dst eth),
                 m_eth_type = None, m_ipv4_src = None, m_ipv4_dst = None\<rparr>
                [OFPActionOutput out_port OFPCML_MAX] (Some (pi_buffer_id msg))
              @ send_packet_out msg [OFPActionOutput out_port OFPCML_MAX])"
  using assms
  by (auto simp: packet_in_handler_Teste2_def qos_Teste2_def is_high_Teste2_def
                 is_low_Teste2_def OFPMatch_def Let_def)

theorem two_tier_classification_witness:
  "sent (packet_in_handler_Teste2 sample_table
           (sample_packet_in 1 1 7
              (sample_frame ''00:00:00:00:00:01'' ''00:00:00:00:00:04'' ETH_TYPE_IP
                 (Some \<lparr>ip_src = ''10.0.0.1'', ip_dst = ''10.0.0.4''\<rparr>))))
     = [OFPFlowMod \<lparr>fm_datapath = 1, fm_buffer_id = 7, fm_priority = 1,
                    fm_match = \<lparr>m_in_port = None, m_eth_dst = None,
                                m_eth_type = Some ETH_TYPE_IP,
                                m_ipv4_src = Some ''10.0.0.1'',
                                m_ipv4_dst = Some ''10.0.0.4''\<rparr>,
                    fm_instructions = [OFPInstructionActions OFPIT_APPLY_ACTIONS
                       [OFPActionSetQueue 1, OFPActionOutput 4 OFPCML_MAX]]\<rparr>,
        OFPPacketOut \<lparr>po_datapath = 1, po_buffer_id = 7, po_in_port = 1,
                      po_actions = [OFPActionSetQueue 1, OFPActionOutput 4 OFPCML_MAX],
                      po_data = None\<rparr>]
   \<and> sent (packet_in_handler_Teste2 sample_table
           (sample_packet_in 1 3 7
              (sample_frame ''00:00:00:00:00:03'' ''00:00:00:00:00:04'' ETH_TYPE_IP
                 (Some \<lparr>ip_src = ''10.0.0.3'', ip_dst = ''10.0.0.4''\<rparr>))))
     = [OFPFlowMod \<lparr>fm_datapath = 1, fm_buffer_id = 7, fm_priority = 1,
                    fm_match = \<lparr>m_in_port = None, m_eth_dst = None,
                                m_eth_type = Some ETH_TYPE_IP,
                                m_ipv4_src = Some ''10.0.0.3'',
                                m_ipv4_dst = Some ''10.0.0.4''\<rparr>,
                    fm_instructions = [OFPInstructionActions OFPIT_APPLY_ACTIONS
                       [OFPActionSetQueue 2, OFPActionOutput 4 OFPCML_MAX]]\<rparr>,
        OFPPacketOut \<lparr>po_datapath = 1, po_buffer_id = 7, po_in_port = 3,
                      po_actions = [OFPActionSetQueue 2, OFPActionOutput 4 OFPCML_MAX],
                      po_data = None\<rparr>]
   \<and> sent (packet_in_handler_Teste2 sample_table
           (sample_packet_in 1 2 7
              (sample_frame ''00:00:00:00:00:02'' ''00:00:00:00:00:04'' ETH_TYPE_IP
                 (Some \<lparr>ip_src = ''10.0.0.2'', ip_dst = ''10.0.0.4''\<rparr>))))
     = [OFPFlowMod \<lparr>fm_datapath = 1, fm_buffer_id = 7, fm_priority = 1,
                    fm_match = \<lparr>m_in_port = Some 2,
                                m_eth_dst = Some ''00:00:00:00:00:04'',
                                m_eth_type = None, m_ipv4_src = None, m_ipv4_dst = None\<rparr>,
                    fm_instructions = [OFPInstructionActions OFPIT_APPLY_ACTIONS
                       [OFPActionOutput 4 OFPCML_MAX]]\<rparr>,
        OFPPacketOut \<lparr>po_datapath = 1, po_buffer_id = 7, po_in_port = 2,
                      po_actions = [OFPActionOutput 4 OFPCML_MAX],
                      po_data = None\<rparr>]"
proof -
  let ?f = "\<lambda>s i. sample_frame s ''00:00:00:00:00:04'' ETH_TYPE_IP
                    (Some \<lparr>ip_src = i, ip_dst = ''10.0.0.4''\<rparr>)"
  let ?e = "\<lambda>s. \<lparr>eth_dst = ''00:00:00:00:00:04'', eth_src = s, ethertype = ETH_TYPE_IP\<rparr>"
  note T = two_tier_classification [where tbl = sample_table and out_port = 4]
  show ?thesis
    using T [where msg = "sample_packet_in 1 1 7 (?f ''00:00:00:00:00:01'' ''10.0.0.1'')"
               and eth = "?e ''00:00:00:00:00:01''"
               and ip = "\<lparr>ip_src = ''10.0.0.1'', ip_dst = ''10.0.0.4''\<rparr>"]
          T [where msg = "sample_packet_in 1 3 7 (?f ''00:00:00:00:00:03'' ''10.0.0.3'')"
               and eth = "?e ''00:00:00:00:00:03''"
               and ip = "\<lparr>ip_src = ''10.0.0.3'', ip_dst = ''10.0.0.4''\<rparr>"]
          T [where msg = "sample_packet_in 1 2 7 (?f ''00:00:00:00:00:02'' ''10.0.0.2'')"
               and eth = "?e ''00:00:00:00:00:02''"
               and ip = "\<lparr>ip_src = ''10.0.0.2'', ip_dst = ''10.0.0.4''\<rparr>"]
    by (simp add: sample_defs add_flow_def send_packet_out_def OFP_NO_BUFFER_def
                  out_port_for_def setdefault_ports_def)
qed

text \<open>
  C6. Whenever a classification test matches (switch 1, output port 4, IPv4 ether-type, and
  the high or the low test of the controller holds of the IPv4 header), the installed rule
  matches exactly on \<open>eth_type = IPv4\<close>, \<open>ipv4_src\<close> and \<open>ipv4_dst\<close>, with no
  \<open>in_port\<close> and no \<open>eth_dst\<close>, and the action list is the queue-setting action
  immediately followed by the output action, the same list in the flow modification and in
  the packet-out. Stated for the two controllers that classify.
\<close>

theorem classified_rule_shape:
  assumes "get_protocol_ethernet (pi_pkt msg) = Some eth"
      and "ethertype eth = ETH_TYPE_IP"
      and "get_protocol_ipv4 (pi_pkt msg) = Some ip"
      and "pi_datapath_id msg = 1"
      and "out_port_for tbl msg eth = 4"
  shows "(is_high_Teste2 ip \<or> is_low_Teste2 ip \<longrightarrow>
          sent (packet_in_handler_Teste2 tbl msg)
            = [OFPFlowMod
                 \<lparr>fm_datapath = 1,
                  fm_buffer_id = (if pi_buffer_id msg = 0 then OFP_NO_BUFFER
                                  else pi_buffer_id msg),
                  fm_priority = 1,
                  fm_match = \<lparr>m_in_port = None, m_eth_dst = None,
                              m_eth_type = Some ETH_TYPE_IP,
                              m_ipv4_src = Some (ip_src ip),
                              m_ipv4_dst = Some (ip_dst ip)\<rparr>,
                  fm_instructions =
                    [OFPInstructionActions OFPIT_APPLY_ACTIONS
                       [OFPActionSetQueue (if is_high_Teste2 ip then 1 else 2),
                        OFPActionOutput 4 OFPCML_MAX]]\<rparr>,
               OFPPacketOut
                 \<lparr>po_datapath = 1,
                  po_buffer_id = pi_buffer_id msg,
                  po_in_port = pi_in_port msg,
                  po_actions = [OFPActionSetQueue (if is_high_Teste2 ip then 1 else 2),
                                OFPActionOutput 4 OFPCML_MAX],
                  po_data = (if pi_buffer_id msg = OFP_NO_BUFFER then Some (pi_data msg)
                             else None)\<rparr>])
       \<and> (is_high_Teste3 ip \<or> is_low_Teste3 ip \<longrightarrow>
          sent (packet_in_handler_Teste3 tbl msg)
            = [OFPFlowMod
                 \<lparr>fm_datapath = 1,
                  fm_buffer_id = (if pi_buffer_id msg = 0 then OFP_NO_BUFFER
                                  else pi_buffer_id msg),
                  fm_priority = 1,
                  fm_match = \<lparr>m_in_port = None, m_eth_dst = None,
                              m_eth_type = Some ETH_TYPE_IP,
                              m_ipv4_src = Some (ip_src ip),
                              m_ipv4_dst = Some (ip_dst ip)\<rparr>,
                  fm_instructions =
                    [OFPInstructionActions OFPIT_APPLY_ACTIONS
                       [OFPActionSetQueue (if is_high_Teste3 ip then 1 else 2),
                        OFPActionOutput 4 OFPCML_MAX]]\<rparr>,
               OFPPacketOut
                 \<lparr>po_datapath = 1,
                  po_buffer_id = pi_buffer_id msg,
                  po_in_port = pi_in_port msg,
                  po_actions = [OFPActionSetQueue (if is_high_Teste3 ip then 1 else 2),
                                OFPActionOutput 4 OFPCML_MAX],
                  po_data = (if pi_buffer_id msg = OFP_NO_BUFFER then Some (pi_data msg)
                             else None)\<rparr>])"
  using assms
  by (auto simp: packet_in_handler_Teste2_def qos_Teste2_def
                 packet_in_handler_Teste3_def qos_Teste3_def
                 OFPMatch_def Let_def add_flow_def send_packet_out_def)

theorem classified_rule_shape_witness:
  "out_port_for sample_table
     (sample_packet_in 1 3 0
        (sample_frame ''00:00:00:00:00:03'' ''00:00:00:00:00:04'' ETH_TYPE_IP
           (Some \<lparr>ip_src = ''10.0.0.3'', ip_dst = ''10.0.0.4''\<rparr>)))
     \<lparr>eth_dst = ''00:00:00:00:00:04'', eth_src = ''00:00:00:00:00:03'',
      ethertype = ETH_TYPE_IP\<rparr> = 4
   \<and> is_low_Teste2 \<lparr>ip_src = ''10.0.0.3'', ip_dst = ''10.0.0.4''\<rparr>
   \<and> sent (packet_in_handler_Teste2 sample_table
        (sample_packet_in 1 3 0
           (sample_frame ''00:00:00:00:00:03'' ''00:00:00:00:00:04'' ETH_TYPE_IP
              (Some \<lparr>ip_src = ''10.0.0.3'', ip_dst = ''10.0.0.4''\<rparr>))))
     = [OFPFlowMod \<lparr>fm_datapath = 1, fm_buffer_id = OFP_NO_BUFFER, fm_priority = 1,
                    fm_match = \<lparr>m_in_port = None, m_eth_dst = None,
                                m_eth_type = Some ETH_TYPE_IP,
                                m_ipv4_src = Some ''10.0.0.3'',
                                m_ipv4_dst = Some ''10.0.0.4''\<rparr>,
                    fm_instructions = [OFPInstructionActions OFPIT_APPLY_ACTIONS
                       [OFPActionSetQueue 2, OFPActionOutput 4 OFPCML_MAX]]\<rparr>,
        OFPPacketOut \<lparr>po_datapath = 1, po_buffer_id = 0, po_in_port = 3,
                      po_actions = [OFPActionSetQueue 2, OFPActionOutput 4 OFPCML_MAX],
                      po_data = None\<rparr>]
   \<and> is_high_Teste3 \<lparr>ip_src = ''10.0.0.2'', ip_dst = ''10.0.0.4''\<rparr>
   \<and> sent (packet_in_handler_Teste3 sample_table
        (sample_packet_in 1 2 OFP_NO_BUFFER
           (sample_frame ''00:00:00:00:00:02'' ''00:00:00:00:00:04'' ETH_TYPE_IP
              (Some \<lparr>ip_src = ''10.0.0.2'', ip_dst = ''10.0.0.4''\<rparr>))))
     = [OFPFlowMod \<lparr>fm_datapath = 1, fm_buffer_id = OFP_NO_BUFFER, fm_priority = 1,
                    fm_match = \<lparr>m_in_port = None, m_eth_dst = None,
                                m_eth_type = Some ETH_TYPE_IP,
                                m_ipv4_src = Some ''10.0.0.2'',
                                m_ipv4_dst = Some ''10.0.0.4''\<rparr>,
                    fm_instructions = [OFPInstructionActions OFPIT_APPLY_ACTIONS
                       [OFPActionSetQueue 1, OFPActionOutput 4 OFPCML_MAX]]\<rparr>,
        OFPPacketOut \<lparr>po_datapath = 1, po_buffer_id = OFP_NO_BUFFER, po_in_port = 2,
                      po_actions = [OFPActionSetQueue 1, OFPActionOutput 4 OFPCML_MAX],
                      po_data = Some [0x00, 0x01]\<rparr>]"
  using classified_rule_shape [where tbl = sample_table
      and msg = "sample_packet_in 1 3 0
           (sample_frame ''00:00:00:00:00:03'' ''00:00:00:00:00:04'' ETH_TYPE_IP
              (Some \<lparr>ip_src = ''10.0.0.3'', ip_dst = ''10.0.0.4''\<rparr>))"
      and eth = "\<lparr>eth_dst = ''00:00:00:00:00:04'', eth_src = ''00:00:00:00:00:03'',
                  ethertype = ETH_TYPE_IP\<rparr>"
      and ip = "\<lparr>ip_src = ''10.0.0.3'', ip_dst = ''10.0.0.4''\<rparr>"]
    classified_rule_shape [where tbl = sample_table
      and msg = "sample_packet_in 1 2 OFP_NO_BUFFER
           (sample_frame ''00:00:00:00:00:02'' ''00:00:00:00:00:04'' ETH_TYPE_IP
              (Some \<lparr>ip_src = ''10.0.0.2'', ip_dst = ''10.0.0.4''\<rparr>))"
      and eth = "\<lparr>eth_dst = ''00:00:00:00:00:04'', eth_src = ''00:00:00:00:00:02'',
                  ethertype = ETH_TYPE_IP\<rparr>"
      and ip = "\<lparr>ip_src = ''10.0.0.2'', ip_dst = ''10.0.0.4''\<rparr>"]
  by (simp add: sample_defs out_port_for_def setdefault_ports_def is_low_Teste2_def
                is_high_Teste2_def is_high_Teste3_def is_low_Teste3_def)

text \<open>
  C8. Three-tier controller (\<^verbatim>\<open>controladorTeste3.py\<close>), packet-in with a decoded,
  non-LLDP frame and a Deliver decision. On switch 1 with output port 4 and the IPv4
  ether-type, source \<open>10.0.0.2\<close> gives queue 1 (HIGH) and sources \<open>10.0.0.1\<close> and
  \<open>10.0.0.3\<close> give queue 2 (LOW); any other source there, and any frame on another
  switch, towards another port or of another ether-type, gives a rule and a packet-out
  whose only action is the output. The high and the low test never hold of the same header.
\<close>

theorem three_tier_classification:
  assumes "get_protocol_ethernet (pi_pkt msg) = Some eth"
      and "ethertype eth \<noteq> ETH_TYPE_LLDP"
      and "out_port_for tbl msg eth = out_port"
      and "out_port \<noteq> OFPP_FLOOD"
  shows "(pi_datapath_id msg = 1 \<and> out_port = 4 \<and> ethertype eth = ETH_TYPE_IP
            \<and> get_protocol_ipv4 (pi_pkt msg) = Some ip \<and> ip_src ip = ''10.0.0.2'' \<longrightarrow>
          sent (packet_in_handler_Teste3 tbl msg)
            = add_flow 1 1
                \<lparr>m_in_port = None, m_eth_dst = None, m_eth_type = Some ETH_TYPE_IP,
                 m_ipv4_src = Some ''10.0.0.2'', m_ipv4_dst = Some (ip_dst ip)\<rparr>
                [OFPActionSetQueue 1, OFPActionOutput 4 OFPCML_MAX] (Some (pi_buffer_id msg))
              @ send_packet_out msg [OFPActionSetQueue 1, OFPActionOutput 4 OFPCML_MAX])
       \<and> (pi_datapath_id msg = 1 \<and> out_port = 4 \<and> ethertype eth = ETH_TYPE_IP
            \<and> get_protocol_ipv4 (pi_pkt msg) = Some ip
            \<and> (ip_src ip = ''10.0.0.1'' \<or> ip_src ip = ''10.0.0.3'') \<longrightarrow>
          sent (packet_in_handler_Teste3 tbl msg)
            = add_flow 1 1
                \<lparr>m_in_port = None, m_eth_dst = None, m_eth_type = Some ETH_TYPE_IP,
                 m_ipv4_src = Some (ip_src ip), m_ipv4_dst = Some (ip_dst ip)\<rparr>
                [OFPActionSetQueue 2, OFPActionOutput 4 OFPCML_MAX] (Some (pi_buffer_id msg))
              @ send_packet_out msg [OFPActionSetQueue 2, OFPActionOutput 4 OFPCML_MAX])
       \<and> ((pi_datapath_id msg = 1 \<and> out_port = 4 \<and> ethertype eth = ETH_TYPE_IP
             \<and> get_protocol_ipv4 (pi_pkt msg) = Some ip
             \<and> ip_src ip \<noteq> ''10.0.0.2'' \<and> ip_src ip \<noteq> ''10.0.0.1''
             \<and> ip_src ip \<noteq> ''10.0.0.3'')
            \<or> \<not> (pi_datapath_id msg = 1 \<and> out_port = 4 \<and> ethertype eth = ETH_TYPE_IP) \<longrightarrow>
          sent (packet_in_handler_Teste3 tbl msg)
            = add_flow (pi_datapath_id msg) 1
                \<lparr>m_in_port = Some (pi_in_port msg), m_eth_dst = Some (eth_dst eth),
                 m_eth_type = None, m_ipv4_src = None, m_ipv4_dst = None\<rparr>
                [OFPActionOutput out_port OFPCML_MAX] (Some (pi_buffer_id msg))
              @ send_packet_out msg [OFPActionOutput out_port OFPCML_MAX])
       \<and> \<not> (is_high_Teste3 ip \<and> is_low_Teste3 ip)"
  using assms
  by (auto simp: packet_in_handler_Teste3_def qos_Teste3_def is_high_Teste3_def
                 is_low_Teste3_def OFPMatch_def Let_def)

theorem three_tier_classification_witness:
  "sent (packet_in_handler_Teste3 sample_table
           (sample_packet_in 1 2 7
              (sample_frame ''00:00:00:00:00:02'' ''00:00:00:00:00:04'' ETH_TYPE_IP
                 (Some \<lparr>ip_src = ''10.0.0.2'', ip_dst = ''10.0.0.4''\<rparr>))))
     = [OFPFlowMod \<lparr>fm_datapath = 1, fm_buffer_id = 7, fm_priority = 1,
                    fm_match = \<lparr>m_in_port = None, m_eth_dst = None,
                                m_eth_type = Some ETH_TYPE_IP,
                                m_ipv4_src = Some ''10.0.0.2'',
                                m_ipv4_dst = Some ''10.0.0.4''\<rparr>,
                    fm_instructions = [OFPInstructionActions OFPIT_APPLY_ACTIONS
                       [OFPActionSetQueue 1, OFPActionOutput 4 OFPCML_MAX]]\<rparr>,
        OFPPacketOut \<lparr>po_datapath = 1, po_buffer_id = 7, po_in_port = 2,
                      po_actions = [OFPActionSetQueue 1, OFPActionOutput 4 OFPCML_MAX],
                      po_data = None\<rparr>]
   \<and> sent (packet_in_handler_Teste3 sample_table
           (sample_packet_in 1 1 7
              (sample_frame ''00:00:00:00:00:01'' ''00:00:00:00:00:04'' ETH_TYPE_IP
                 (Some \<lparr>ip_src = ''10.0.0.1'', ip_dst = ''10.0.0.4''\<rparr>))))
     = [OFPFlowMod \<lparr>fm_datapath = 1, fm_buffer_id = 7, fm_priority = 1,
                    fm_match = \<lparr>m_in_port = None, m_eth_dst = None,
                                m_eth_type = Some ETH_TYPE_IP,
                                m_ipv4_src = Some ''10.0.0.1'',
                                m_ipv4_dst = Some ''10.0.0.4''\<rparr>,
                    fm_instructions = [OFPInstructionActions OFPIT_APPLY_ACTIONS
                       [OFPActionSetQueue 2, OFPActionOutput 4 OFPCML_MAX]]\<rparr>,
        OFPPacketOut \<lparr>po_datapath = 1, po_buffer_id = 7, po_in_port = 1,
                      po_actions = [OFPActionSetQueue 2, OFPActionOutput 4 OFPCML_MAX],
                      po_data = None\<rparr>]
   \<and> sent (packet_in_handler_Teste3 sample_table
           (sample_packet_in 1 5 7
              (sample_frame ''00:00:00:00:00:05'' ''00:00:00:00:00:04'' ETH_TYPE_IP
                 (Some \<lparr>ip_src = ''10.0.0.5'', ip_dst = ''10.0.0.4''\<rparr>))))
     = [OFPFlowMod \<lparr>fm_datapath = 1, fm_buffer_id = 7, fm_priority = 1,
                    fm_match = \<lparr>m_in_port = Some 5,
                                m_eth_dst = Some ''00:00:00:00:00:04'',
                                m_eth_type = None, m_ipv4_src = None, m_ipv4_dst = None\<rparr>,
                    fm_instructions = [OFPInstructionActions OFPIT_APPLY_ACTIONS
                       [OFPActionOutput 4 OFPCML_MAX]]\<rparr>,
        OFPPacketOut \<lparr>po_datapath = 1, po_buffer_id = 7, po_in_port = 5,
                      po_actions = [OFPActionOutput 4 OFPCML_MAX],
                      po_data = None\<rparr>]"
proof -
  let ?f = "\<lambda>s i. sample_frame s ''00:00:00:00:00:04'' ETH_TYPE_IP
                    (Some \<lparr>ip_src = i, ip_dst = ''10.0.0.4''\<rparr>)"
  let ?e = "\<lambda>s. \<lparr>eth_dst = ''00:00:00:00:00:04'', eth_src = s, ethertype = ETH_TYPE_IP\<rparr>"
  note T = three_tier_classification [where tbl = sample_table and out_port = 4]
  show ?thesis
    using T [where msg = "sample_packet_in 1 2 7 (?f ''00:00:00:00:00:02'' ''10.0.0.2'')"
               and eth = "?e ''00:00:00:00:00:02''"
               and ip = "\<lparr>ip_src = ''10.0.0.2'', ip_dst = ''10.0.0.4''\<rparr>"]
          T [where msg = "sample_packet_in 1 1 7 (?f ''00:00:00:00:00:01'' ''10.0.0.1'')"
               and eth = "?e ''00:00:00:00:00:01''"
               and ip = "\<lparr>ip_src = ''10.0.0.1'', ip_dst = ''10.0.0.4''\<rparr>"]
          T [where msg = "sample_packet_in 1 5 7 (?f ''00:00:00:00:00:05'' ''10.0.0.5'')"
               and eth = "?e ''00:00:00:00:00:05''"
               and ip = "\<lparr>ip_src = ''10.0.0.5'', ip_dst = ''10.0.0.4''\<rparr>"]
    by (simp add: sample_defs add_flow_def send_packet_out_def OFP_NO_BUFFER_def
                  out_port_for_def setdefault_ports_def)
qed

section \<open>Flooding, dropped frames and malformed frames\<close>

text \<open>
  C2, with the conditions the code needs. When no port is recorded for the destination
  address on the switch (as is the case for every destination on a fresh switch, by
  \<open>fresh_switch_unrecorded\<close>), a packet-in whose frame decodes, is not LLDP and has a
  destination different from its own source address is flooded: the handler returns
  normally, learns the source, and sends exactly one message, a packet-out whose only action
  is the output to \<open>OFPP_FLOOD\<close>; no rule is installed. This holds for the three
  controllers.
\<close>

theorem flood_until_known:
  assumes "get_protocol_ethernet (pi_pkt msg) = Some eth"
      and "ethertype eth \<noteq> ETH_TYPE_LLDP"
      and "setdefault_ports tbl (pi_datapath_id msg) (eth_dst eth) = None"
      and "eth_dst eth \<noteq> eth_src eth"
  shows "packet_in_handler v tbl msg
           = \<lparr>raised = None,
              mac_to_port = learn tbl (pi_datapath_id msg) (eth_src eth) (pi_in_port msg),
              sent = send_packet_out msg [OFPActionOutput OFPP_FLOOD OFPCML_MAX]\<rparr>"
  using assms out_port_for_unrecorded[OF assms(3,4)]
  by (cases v) (simp_all add: handler_defs)

theorem flood_until_known_witness:
  "setdefault_ports init 1 ''ff:ff:ff:ff:ff:ff'' = None
   \<and> packet_in_handler Teste4_5 init
        (sample_packet_in 1 1 OFP_NO_BUFFER
           (sample_frame ''00:00:00:00:00:01'' ''ff:ff:ff:ff:ff:ff'' 0x0806 None))
      = \<lparr>raised = None,
         mac_to_port = [1 \<mapsto> [''00:00:00:00:00:01'' \<mapsto> 1]],
         sent = [OFPPacketOut \<lparr>po_datapath = 1, po_buffer_id = OFP_NO_BUFFER, po_in_port = 1,
                               po_actions = [OFPActionOutput OFPP_FLOOD OFPCML_MAX],
                               po_data = Some [0x00, 0x01]\<rparr>]\<rparr>"
  using flood_until_known [where v = Teste4_5 and tbl = init
      and msg = "sample_packet_in 1 1 OFP_NO_BUFFER
           (sample_frame ''00:00:00:00:00:01'' ''ff:ff:ff:ff:ff:ff'' 0x0806 None)"
      and eth = "\<lparr>eth_dst = ''ff:ff:ff:ff:ff:ff'', eth_src = ''00:00:00:00:00:01'',
                  ethertype = 0x0806\<rparr>"]
  by (simp add: sample_frame_def sample_packet_in_def init_def setdefault_ports_def
                learn_def send_packet_out_def ETH_TYPE_LLDP_def)

text \<open>
  Without the condition on the source address the statement fails: the source is learned
  before the destination is looked up, so on a fresh switch a frame addressed to its own
  source address (here an ether-type \<open>0x9000\<close> loopback frame) finds its destination on
  the ingress port; a rule is installed and the packet is sent to port 1, not flooded.
\<close>

theorem flood_until_known_counterexample:
  "init 1 = None
   \<and> sent (packet_in_handler_Teste2 init
             (sample_packet_in 1 1 OFP_NO_BUFFER
                (sample_frame ''00:00:00:00:00:01'' ''00:00:00:00:00:01'' 0x9000 None)))
      = [OFPFlowMod
           \<lparr>fm_datapath = 1, fm_buffer_id = OFP_NO_BUFFER, fm_priority = 1,
            fm_match = \<lparr>m_in_port = Some 1, m_eth_dst = Some ''00:00:00:00:00:01'',
                        m_eth_type = None, m_ipv4_src = None, m_ipv4_dst = None\<rparr>,
            fm_instructions = [OFPInstructionActions OFPIT_APPLY_ACTIONS
                                 [OFPActionOutput 1 OFPCML_MAX]]\<rparr>,
         OFPPacketOut
           \<lparr>po_datapath = 1, po_buffer_id = OFP_NO_BUFFER, po_in_port = 1,
            po_actions = [OFPActionOutput 1 OFPCML_MAX],
            po_data = Some [0x00, 0x01]\<rparr>]
   \<and> sent (packet_in_handler_Teste2 init
             (sample_packet_in 1 1 OFP_NO_BUFFER
                (sample_frame ''00:00:00:00:00:01'' ''00:00:00:00:00:01'' 0x9000 None)))
      \<noteq> send_packet_out
           (sample_packet_in 1 1 OFP_NO_BUFFER
              (sample_frame ''00:00:00:00:00:01'' ''00:00:00:00:00:01'' 0x9000 None))
           [OFPActionOutput OFPP_FLOOD OFPCML_MAX]"
  by (simp add: packet_in_handler_Teste2_def qos_Teste2_def sample_frame_def
                sample_packet_in_def init_def out_port_for_def setdefault_ports_def
                add_flow_def send_packet_out_def OFPMatch_def
                ETH_TYPE_LLDP_def ETH_TYPE_IP_def OFPP_FLOOD_def OFP_NO_BUFFER_def Let_def)

text \<open>
  C3, as the code behaves. A packet-in whose frame holds no decodable ethernet header makes
  the handler raise \<open>AttributeError\<close> at the ether-type test: the handler does not
  return normally and nothing in it catches the exception. Up to that point the dictionary
  is untouched and no message has been sent. This holds for the three controllers.
\<close>

theorem malformed_frame_raises:
  assumes "get_protocol_ethernet (pi_pkt msg) = None"
  shows "packet_in_handler v tbl msg
           = \<lparr>raised = Some AttributeError, mac_to_port = tbl, sent = []\<rparr>"
  using assms by (cases v) (simp_all add: handler_defs)

theorem malformed_frame_raises_witness:
  "get_protocol_ethernet (pi_pkt (sample_packet_in 1 2 OFP_NO_BUFFER
        \<lparr>get_protocol_ethernet = None, get_protocol_ipv4 = None\<rparr>)) = None
   \<and> packet_in_handler Teste4_5 sample_table
        (sample_packet_in 1 2 OFP_NO_BUFFER
           \<lparr>get_protocol_ethernet = None, get_protocol_ipv4 = None\<rparr>)
      = \<lparr>raised = Some AttributeError, mac_to_port = sample_table, sent = []\<rparr>"
  using malformed_frame_raises [where v = Teste4_5 and tbl = sample_table
      and msg = "sample_packet_in 1 2 OFP_NO_BUFFER
           \<lparr>get_protocol_ethernet = None, get_protocol_ipv4 = None\<rparr>"]
  by (simp add: sample_packet_in_def)

text \<open>
  So the handler does fail on such a frame: on a fresh controller the call below ends with
  the exception, where a handler that dropped the frame would return normally.
\<close>

theorem malformed_frame_counterexample:
  "raised (packet_in_handler_Teste2 init
             (sample_packet_in 1 2 OFP_NO_BUFFER
                \<lparr>get_protocol_ethernet = None, get_protocol_ipv4 = None\<rparr>))
     = Some AttributeError"
  by (simp add: packet_in_handler_Teste2_def sample_packet_in_def)

text \<open>
  C5. A packet-in whose frame has the LLDP ether-type leaves the dictionary exactly as it
  was (no entry for the switch is created), sends no message and raises nothing, in the
  three controllers.
\<close>

theorem lldp_ignored:
  assumes "get_protocol_ethernet (pi_pkt msg) = Some eth"
      and "ethertype eth = ETH_TYPE_LLDP"
  shows "packet_in_handler v tbl msg = \<lparr>raised = None, mac_to_port = tbl, sent = []\<rparr>"
  using assms by (cases v) (simp_all add: handler_defs)

theorem lldp_ignored_witness:
  "ethertype \<lparr>eth_dst = ''01:80:c2:00:00:0e'', eth_src = ''00:00:00:00:00:02'',
              ethertype = ETH_TYPE_LLDP\<rparr> = ETH_TYPE_LLDP
   \<and> packet_in_handler Teste3 sample_table
        (sample_packet_in 1 2 7
           (sample_frame ''00:00:00:00:00:02'' ''01:80:c2:00:00:0e'' ETH_TYPE_LLDP None))
      = \<lparr>raised = None, mac_to_port = sample_table, sent = []\<rparr>"
  using lldp_ignored [where v = Teste3 and tbl = sample_table
      and msg = "sample_packet_in 1 2 7
           (sample_frame ''00:00:00:00:00:02'' ''01:80:c2:00:00:0e'' ETH_TYPE_LLDP None)"
      and eth = "\<lparr>eth_dst = ''01:80:c2:00:00:0e'', eth_src = ''00:00:00:00:00:02'',
              ethertype = ETH_TYPE_LLDP\<rparr>"]
  by (simp add: sample_frame_def sample_packet_in_def)

section \<open>Rules and their order\<close>

text \<open>
  C4. The switch-features handler sends exactly one message, a flow modification with the
  empty match, the single action output-to-controller and priority 0, and leaves the
  dictionary alone. Every flow modification a packet-in handler sends has priority 1, which
  is above 0.
\<close>

theorem table_miss_and_rule_priority:
  "switch_features_handler tbl datapath
     = \<lparr>raised = None, mac_to_port = tbl,
        sent = [OFPFlowMod
                  \<lparr>fm_datapath = datapath, fm_buffer_id = OFP_NO_BUFFER, fm_priority = 0,
                   fm_match = \<lparr>m_in_port = None, m_eth_dst = None, m_eth_type = None,
                               m_ipv4_src = None, m_ipv4_dst = None\<rparr>,
                   fm_instructions =
                     [OFPInstructionActions OFPIT_APPLY_ACTIONS
                        [OFPActionOutput OFPP_CONTROLLER OFPCML_NO_BUFFER]]\<rparr>]\<rparr>
   \<and> (\<forall>f. OFPFlowMod f \<in> set (sent (packet_in_handler v tbl' msg)) \<longrightarrow>
          fm_priority f = 1 \<and> 0 < fm_priority f)"
proof (intro conjI allI impI)
  show "switch_features_handler tbl datapath
     = \<lparr>raised = None, mac_to_port = tbl,
        sent = [OFPFlowMod
                  \<lparr>fm_datapath = datapath, fm_buffer_id = OFP_NO_BUFFER, fm_priority = 0,
                   fm_match = \<lparr>m_in_port = None, m_eth_dst = None, m_eth_type = None,
                               m_ipv4_src = None, m_ipv4_dst = None\<rparr>,
                   fm_instructions =
                     [OFPInstructionActions OFPIT_APPLY_ACTIONS
                        [OFPActionOutput OFPP_CONTROLLER OFPCML_NO_BUFFER]]\<rparr>]\<rparr>"
    by (simp add: switch_features_handler_def add_flow_def OFPMatch_def)
next
  fix f
  assume f: "OFPFlowMod f \<in> set (sent (packet_in_handler v tbl' msg))"
  then show "fm_priority f = 1"
    by (cases v)
       (auto simp: handler_defs Let_def add_flow_def send_packet_out_def
             split: option.splits if_splits sum.splits prod.splits)
  then show "0 < fm_priority f" by simp
qed

theorem table_miss_and_rule_priority_witness:
  "OFPFlowMod \<lparr>fm_datapath = 1, fm_buffer_id = 7, fm_priority = 1,
                fm_match = \<lparr>m_in_port = Some 1, m_eth_dst = Some ''00:00:00:00:00:04'',
                            m_eth_type = None, m_ipv4_src = None, m_ipv4_dst = None\<rparr>,
                fm_instructions = [OFPInstructionActions OFPIT_APPLY_ACTIONS
                                     [OFPActionOutput 4 OFPCML_MAX]]\<rparr>
     \<in> set (sent (packet_in_handler Teste4_5 sample_table
                 (sample_packet_in 1 1 7
                    (sample_frame ''00:00:00:00:00:01'' ''00:00:00:00:00:04'' 0x0806 None))))
   \<and> fm_priority \<lparr>fm_datapath = 1, fm_buffer_id = 7, fm_priority = 1,
                fm_match = \<lparr>m_in_port = Some 1, m_eth_dst = Some ''00:00:00:00:00:04'',
                            m_eth_type = None, m_ipv4_src = None, m_ipv4_dst = None\<rparr>,
                fm_instructions = [OFPInstructionActions OFPIT_APPLY_ACTIONS
                                     [OFPActionOutput 4 OFPCML_MAX]]\<rparr> = 1
   \<and> sent (switch_features_handler init 1)
       = [OFPFlowMod
            \<lparr>fm_datapath = 1, fm_buffer_id = OFP_NO_BUFFER, fm_priority = 0,
             fm_match = \<lparr>m_in_port = None, m_eth_dst = None, m_eth_type = None,
                         m_ipv4_src = None, m_ipv4_dst = None\<rparr>,
             fm_instructions =
               [OFPInstructionActions OFPIT_APPLY_ACTIONS
                  [OFPActionOutput OFPP_CONTROLLER OFPCML_NO_BUFFER]]\<rparr>]"
proof -
  let ?m = "sample_packet_in 1 1 7
              (sample_frame ''00:00:00:00:00:01'' ''00:00:00:00:00:04'' 0x0806 None)"
  let ?f = "\<lparr>fm_datapath = 1, fm_buffer_id = 7, fm_priority = 1,
                fm_match = \<lparr>m_in_port = Some 1, m_eth_dst = Some ''00:00:00:00:00:04'',
                            m_eth_type = None, m_ipv4_src = None, m_ipv4_dst = None\<rparr>,
                fm_instructions = [OFPInstructionActions OFPIT_APPLY_ACTIONS
                                     [OFPActionOutput 4 OFPCML_MAX]]\<rparr>"
  have mem: "OFPFlowMod ?f \<in> set (sent (packet_in_handler Teste4_5 sample_table ?m))"
    by (simp add: packet_in_handler_Teste4_5_def sample_defs out_port_for_def
                  setdefault_ports_def add_flow_def send_packet_out_def OFPMatch_def
                  ETH_TYPE_LLDP_def Let_def)
  from table_miss_and_rule_priority [where v = Teste4_5 and tbl' = sample_table
         and msg = ?m and tbl = init and datapath = 1] mem
  show ?thesis by simp
qed

text \<open>
  C7. For a packet-in with a decoded, non-LLDP frame whose destination resolves to a port
  other than flood (a Deliver decision): when the handler returns normally it has sent
  exactly two messages, the flow modification first and the packet-out second; when it
  raises (IPv4 ether-type without IPv4 header on switch 1 towards port 4, in the two
  classifying controllers) it has sent nothing. So no packet-out ever precedes its rule.
\<close>

theorem install_before_send:
  assumes "get_protocol_ethernet (pi_pkt msg) = Some eth"
      and "ethertype eth \<noteq> ETH_TYPE_LLDP"
      and "out_port_for tbl msg eth \<noteq> OFPP_FLOOD"
  shows "(raised (packet_in_handler v tbl msg) = None \<longrightarrow>
            (\<exists>f p. sent (packet_in_handler v tbl msg) = [OFPFlowMod f, OFPPacketOut p]))
       \<and> (raised (packet_in_handler v tbl msg) \<noteq> None \<longrightarrow>
            sent (packet_in_handler v tbl msg) = [])"
  using assms
  by (cases v)
     (auto simp: handler_defs Let_def add_flow_def send_packet_out_def
           split: sum.splits prod.splits)

theorem install_before_send_witness:
  "out_port_for sample_table
     (sample_packet_in 1 1 7
        (sample_frame ''00:00:00:00:00:01'' ''00:00:00:00:00:04'' 0x0806 None))
     \<lparr>eth_dst = ''00:00:00:00:00:04'', eth_src = ''00:00:00:00:00:01'', ethertype = 0x0806\<rparr>
     = 4
   \<and> raised (packet_in_handler Teste2 sample_table
        (sample_packet_in 1 1 7
           (sample_frame ''00:00:00:00:00:01'' ''00:00:00:00:00:04'' 0x0806 None))) = None
   \<and> (\<exists>f p. sent (packet_in_handler Teste2 sample_table
        (sample_packet_in 1 1 7
           (sample_frame ''00:00:00:00:00:01'' ''00:00:00:00:00:04'' 0x0806 None)))
          = [OFPFlowMod f, OFPPacketOut p])
   \<and> raised (packet_in_handler Teste3 sample_table
        (sample_packet_in 1 1 7
           (sample_frame ''00:00:00:00:00:01'' ''00:00:00:00:00:04'' ETH_TYPE_IP None)))
       = Some AttributeError
   \<and> sent (packet_in_handler Teste3 sample_table
        (sample_packet_in 1 1 7
           (sample_frame ''00:00:00:00:00:01'' ''00:00:00:00:00:04'' ETH_TYPE_IP None))) = []"
proof -
  let ?m = "sample_packet_in 1 1 7
              (sample_frame ''00:00:00:00:00:01'' ''00:00:00:00:00:04'' 0x0806 None)"
  let ?e = "\<lparr>eth_dst = ''00:00:00:00:00:04'', eth_src = ''00:00:00:00:00:01'',
             ethertype = 0x0806\<rparr>"
  let ?m' = "sample_packet_in 1 1 7
              (sample_frame ''00:00:00:00:00:01'' ''00:00:00:00:00:04'' ETH_TYPE_IP None)"
  let ?e' = "\<lparr>eth_dst = ''00:00:00:00:00:04'', eth_src = ''00:00:00:00:00:01'',
             ethertype = ETH_TYPE_IP\<rparr>"
  have out: "out_port_for sample_table ?m ?e = 4" "out_port_for sample_table ?m' ?e' = 4"
    by (simp_all add: sample_defs out_port_for_def setdefault_ports_def)
  have r: "raised (packet_in_handler Teste2 sample_table ?m) = None"
    by (simp add: packet_in_handler_Teste2_def qos_Teste2_def sample_defs
                  out_port_for_def setdefault_ports_def
                  ETH_TYPE_LLDP_def ETH_TYPE_IP_def Let_def)
  have r': "raised (packet_in_handler Teste3 sample_table ?m') = Some AttributeError"
    by (simp add: packet_in_handler_Teste3_def qos_Teste3_def sample_defs
                  out_port_for_def setdefault_ports_def Let_def)
  have e: "get_protocol_ethernet (pi_pkt ?m) = Some ?e"
          "get_protocol_ethernet (pi_pkt ?m') = Some ?e'"
    by (simp_all add: sample_frame_def sample_packet_in_def)
  have nl: "ethertype ?e \<noteq> ETH_TYPE_LLDP" "ethertype ?e' \<noteq> ETH_TYPE_LLDP"
    by (simp_all add: ETH_TYPE_LLDP_def ETH_TYPE_IP_def)
  have nf: "out_port_for sample_table ?m ?e \<noteq> OFPP_FLOOD"
           "out_port_for sample_table ?m' ?e' \<noteq> OFPP_FLOOD"
    by (simp_all add: out)
  from install_before_send [OF e(1) nl(1) nf(1), of Teste2] r
  have "\<exists>f p. sent (packet_in_handler Teste2 sample_table ?m) = [OFPFlowMod f, OFPPacketOut p]"
    by blast
  moreover from install_before_send [OF e(2) nl(2) nf(2), of Teste3] r'
  have "sent (packet_in_handler Teste3 sample_table ?m') = []"
    by simp
  ultimately show ?thesis
    using out(1) r r' by blast
qed

section \<open>The learning table over a run\<close>

text \<open>
  C9. Starting from the empty dictionary, after any sequence of events: if the dictionary
  of switch \<open>d\<close> records port \<open>p\<close> for address \<open>a\<close>, then one of the events was a
  packet-in on switch \<open>d\<close> with a decoded, non-LLDP frame whose source address is \<open>a\<close>,
  received on port \<open>p\<close>. And no event removes a key: from any dictionary, after any one
  event, every switch that had an entry still has one, and every address recorded for a
  switch is still recorded for it.
\<close>

theorem learning_table_invariant:
  "(run v init evs d = Some ports \<and> ports a = Some p \<longrightarrow>
      (\<exists>msg eth. EventOFPPacketIn msg \<in> set evs \<and> pi_datapath_id msg = d
          \<and> get_protocol_ethernet (pi_pkt msg) = Some eth
          \<and> ethertype eth \<noteq> ETH_TYPE_LLDP \<and> eth_src eth = a \<and> pi_in_port msg = p))
   \<and> dom tbl \<subseteq> dom (mac_to_port (handle v tbl ev))
   \<and> dom (setdefault_ports tbl d) \<subseteq> dom (setdefault_ports (mac_to_port (handle v tbl ev)) d)"
proof (intro conjI impI)
  assume "run v init evs d = Some ports \<and> ports a = Some p"
  then have "run v init evs d = Some ports" "ports a = Some p" by simp_all
  from run_entry_origin [OF this]
  show "\<exists>msg eth. EventOFPPacketIn msg \<in> set evs \<and> pi_datapath_id msg = d
          \<and> get_protocol_ethernet (pi_pkt msg) = Some eth
          \<and> ethertype eth \<noteq> ETH_TYPE_LLDP \<and> eth_src eth = a \<and> pi_in_port msg = p"
    by (simp add: init_def)
qed (simp_all add: handle_keeps_keys)

theorem learning_table_invariant_witness:
  "run Teste2 init
     [EventOFPSwitchFeatures 1,
      EventOFPPacketIn (sample_packet_in 1 1 OFP_NO_BUFFER
         (sample_frame ''00:00:00:00:00:01'' ''ff:ff:ff:ff:ff:ff'' 0x0806 None))] 1
     = Some [''00:00:00:00:00:01'' \<mapsto> 1]
   \<and> (\<exists>msg eth.
         EventOFPPacketIn msg
           \<in> set [EventOFPSwitchFeatures 1,
                  EventOFPPacketIn (sample_packet_in 1 1 OFP_NO_BUFFER
                    (sample_frame ''00:00:00:00:00:01'' ''ff:ff:ff:ff:ff:ff'' 0x0806 None))]
         \<and> pi_datapath_id msg = 1
         \<and> get_protocol_ethernet (pi_pkt msg) = Some eth
         \<and> ethertype eth \<noteq> ETH_TYPE_LLDP
         \<and> eth_src eth = ''00:00:00:00:00:01'' \<and> pi_in_port msg = 1)
   \<and> dom sample_table
       \<subseteq> dom (mac_to_port (handle Teste2 sample_table (EventOFPSwitchFeatures 1)))"
proof -
  let ?evs = "[EventOFPSwitchFeatures 1,
      EventOFPPacketIn (sample_packet_in 1 1 OFP_NO_BUFFER
         (sample_frame ''00:00:00:00:00:01'' ''ff:ff:ff:ff:ff:ff'' 0x0806 None))]"
  have r: "run Teste2 init ?evs 1 = Some [''00:00:00:00:00:01'' \<mapsto> 1]"
    by (simp add: switch_features_handler_def packet_in_handler_Teste2_def sample_frame_def
                  sample_packet_in_def init_def learn_def setdefault_ports_def
                  out_port_for_def ETH_TYPE_LLDP_def Let_def)
  from learning_table_invariant [where v = Teste2 and evs = ?evs and d = 1
         and ports = "[''00:00:00:00:00:01'' \<mapsto> 1]" and a = "''00:00:00:00:00:01''"
         and p = 1 and tbl = sample_table and ev = "EventOFPSwitchFeatures 1"] r
  show ?thesis by simp
qed

section \<open>The buffer reference of an installed rule\<close>

text \<open>
  C10. \<^verbatim>\<open>add_flow\<close> tests its buffer reference for truthiness: called with buffer id 0 it
  emits a flow modification carrying \<open>OFP_NO_BUFFER\<close>, which is not 0, whatever the other
  arguments are; any other buffer id is passed through, and so is the absence of one as
  \<open>OFP_NO_BUFFER\<close>.
\<close>

theorem add_flow_buffer_zero_dropped:
  "add_flow datapath priority match actions (Some 0) =
     [OFPFlowMod \<lparr>fm_datapath = datapath, fm_buffer_id = OFP_NO_BUFFER,
                  fm_priority = priority, fm_match = match,
                  fm_instructions = [OFPInstructionActions OFPIT_APPLY_ACTIONS actions]\<rparr>]
   \<and> OFP_NO_BUFFER \<noteq> 0
   \<and> add_flow datapath priority match actions (Some 0)
       = add_flow datapath priority match actions None"
  by (simp add: add_flow_def OFP_NO_BUFFER_def)

end
